theory Spec2Isabelle
  imports Complex_Main "HOL-Library.Word"
begin

section \<open>JavaScript strings and values\<close>

text \<open>
  The module under verification is \<^verbatim>\<open>src/services/geminiService.ts\<close>. A JavaScript
  string is a sequence of 16-bit code units, and that is what \<^verbatim>\<open>split\<close> and
  \<^verbatim>\<open>JSON.parse\<close> work on. String literals of the source are all ASCII and are
  written \<open>str ''...''\<close>.
\<close>

type_synonym code_unit = "16 word"
type_synonym jsstring = "code_unit list"

definition CH :: "char \<Rightarrow> code_unit" where
  "CH c = of_nat (of_char c)"

definition str :: "string \<Rightarrow> jsstring" where
  "str s = map CH s"

text \<open>
  The values \<^verbatim>\<open>JSON.parse\<close> can produce. An object is its list of own properties in
  insertion order, each key once. A number carries the exact decimal value of its
  literal; JavaScript rounds that value to the nearest double, which changes nothing
  for the integers below \<open>2 ^ 53\<close>.
\<close>

datatype json =
    JNull
  | JBool bool
  | JNumber rat
  | JString jsstring
  | JArray "json list"
  | JObject "(jsstring \<times> json) list"

text \<open>Defining a property on an object: an existing key keeps its place and takes the
  new value (so the last of several duplicate keys wins), a new key is appended.\<close>

fun define_property :: "(jsstring \<times> json) list \<Rightarrow> jsstring \<Rightarrow> json \<Rightarrow> (jsstring \<times> json) list" where
  "define_property [] k v = [(k, v)]"
| "define_property ((k', v') # ms) k v =
     (if k' = k then (k, v) # ms else (k', v') # define_property ms k v)"

text \<open>Reading a property \<^verbatim>\<open>v.k\<close>: \<open>None\<close> is \<^verbatim>\<open>undefined\<close>, which is also what
  a number, a string or a boolean gives for a name such as \<^verbatim>\<open>riskLevel\<close>.\<close>

fun get_field :: "json \<Rightarrow> jsstring \<Rightarrow> json option" where
  "get_field (JObject ms) k = map_of ms k"
| "get_field _ k = None"

section \<open>JSON.parse\<close>

text \<open>
  \<^verbatim>\<open>JSON.parse\<close> belongs to the language, not to the repository. It is modelled after
  the JSON grammar of ECMA-262 (24.5.1): a lexical grammar of tokens separated by
  optional white space, and a syntactic grammar of values over the tokens. \<open>None\<close>
  stands for the \<^verbatim>\<open>SyntaxError\<close> it throws.
\<close>

datatype token = LBrace | RBrace | LBracket | RBracket | Colon | Comma | Literal json

definition is_ws :: "code_unit \<Rightarrow> bool" where
  "is_ws c = (c = 0x09 \<or> c = 0x0A \<or> c = 0x0D \<or> c = 0x20)"

definition is_digit :: "code_unit \<Rightarrow> bool" where
  "is_digit c = (CH CHR ''0'' \<le> c \<and> c \<le> CH CHR ''9'')"

definition digit_val :: "code_unit \<Rightarrow> nat" where
  "digit_val c = unat c - 48"

definition digits_val :: "jsstring \<Rightarrow> nat" where
  "digits_val ds = foldl (\<lambda>a d. 10 * a + digit_val d) 0 ds"

definition hex_val :: "code_unit \<Rightarrow> nat option" where
  "hex_val c =
     (if is_digit c then Some (unat c - 48)
      else if CH CHR ''a'' \<le> c \<and> c \<le> CH CHR ''f'' then Some (unat c - 87)
      else if CH CHR ''A'' \<le> c \<and> c \<le> CH CHR ''F'' then Some (unat c - 55)
      else None)"

text \<open>The one-character escapes: \<^verbatim>\<open>\" \\ \/ \b \f \n \r \t\<close>.\<close>

definition escape :: "code_unit \<Rightarrow> code_unit option" where
  "escape e =
     (if e = 0x22 then Some 0x22
      else if e = 0x5C then Some 0x5C
      else if e = CH CHR ''/'' then Some (CH CHR ''/'')
      else if e = CH CHR ''b'' then Some 0x08
      else if e = CH CHR ''f'' then Some 0x0C
      else if e = CH CHR ''n'' then Some 0x0A
      else if e = CH CHR ''r'' then Some 0x0D
      else if e = CH CHR ''t'' then Some 0x09
      else None)"

definition cons_unit :: "code_unit \<Rightarrow> (jsstring \<times> jsstring) option \<Rightarrow> (jsstring \<times> jsstring) option" where
  "cons_unit u r = (case r of None \<Rightarrow> None | Some (s, rest) \<Rightarrow> Some (u # s, rest))"

text \<open>A string token, read from just after its opening quote (\<open>0x22\<close>): the characters up
  to the closing quote, with the escapes (\<open>0x5C\<close> is the backslash) replaced; a control
  character below \<open>0x20\<close> or a missing closing quote is an error. The result is the
  string and the input that follows the closing quote.\<close>

fun lex_string :: "jsstring \<Rightarrow> (jsstring \<times> jsstring) option" where
  "lex_string [] = None"
| "lex_string (c # cs) =
     (if c = 0x22 then Some ([], cs)
      else if c = 0x5C then
        (case cs of
           [] \<Rightarrow> None
         | e # r \<Rightarrow>
             if e = CH CHR ''u'' then
               (case r of
                  h1 # h2 # h3 # h4 # r' \<Rightarrow>
                    (case (hex_val h1, hex_val h2, hex_val h3, hex_val h4) of
                       (Some d1, Some d2, Some d3, Some d4) \<Rightarrow>
                         cons_unit (of_nat (((d1 * 16 + d2) * 16 + d3) * 16 + d4))
                           (lex_string r')
                     | _ \<Rightarrow> None)
                | _ \<Rightarrow> None)
             else (case escape e of
                     Some u \<Rightarrow> cons_unit u (lex_string r)
                   | None \<Rightarrow> None))
      else if c < 0x20 then None
      else cons_unit c (lex_string cs))"

text \<open>A number token: \<^verbatim>\<open>-? (0 | [1-9][0-9]*) (. [0-9]+)? ([eE] [+-]? [0-9]+)?\<close>, the
  longest match. A dot or an exponent letter that no digit follows is not part of the
  number; it stays in the input, where no token starts with it.\<close>

definition lex_sign :: "jsstring \<Rightarrow> bool \<times> jsstring" where
  "lex_sign s =
     (case s of
        [] \<Rightarrow> (False, s)
      | c # r \<Rightarrow> if c = CH CHR ''-'' then (True, r) else (False, s))"

definition lex_int_part :: "jsstring \<Rightarrow> (jsstring \<times> jsstring) option" where
  "lex_int_part s =
     (case s of
        [] \<Rightarrow> None
      | c # r \<Rightarrow>
          if c = CH CHR ''0'' then Some ([c], r)
          else if is_digit c then Some (takeWhile is_digit s, dropWhile is_digit s)
          else None)"

definition lex_fraction :: "jsstring \<Rightarrow> jsstring \<times> jsstring" where
  "lex_fraction s =
     (case s of
        c # d # r \<Rightarrow>
          if c = CH CHR ''.'' \<and> is_digit d
          then (takeWhile is_digit (d # r), dropWhile is_digit (d # r))
          else ([], s)
      | _ \<Rightarrow> ([], s))"

definition lex_exp_sign :: "jsstring \<Rightarrow> bool \<times> jsstring" where
  "lex_exp_sign s =
     (case s of
        [] \<Rightarrow> (False, s)
      | c # r \<Rightarrow>
          if c = CH CHR ''+'' then (False, r)
          else if c = CH CHR ''-'' then (True, r)
          else (False, s))"

definition lex_exponent :: "jsstring \<Rightarrow> int \<times> jsstring" where
  "lex_exponent s =
     (case s of
        [] \<Rightarrow> (0, s)
      | c # r \<Rightarrow>
          if c = CH CHR ''e'' \<or> c = CH CHR ''E'' then
            (let (neg, r') = lex_exp_sign r; ds = takeWhile is_digit r'
             in if ds = [] then (0, s)
                else ((if neg then - int (digits_val ds) else int (digits_val ds)),
                      dropWhile is_digit r'))
          else (0, s))"

definition number_value :: "bool \<Rightarrow> jsstring \<Rightarrow> jsstring \<Rightarrow> int \<Rightarrow> rat" where
  "number_value neg ip fr ex =
     (let m = of_nat (digits_val ip) + of_nat (digits_val fr) / 10 ^ length fr;
          v = (if 0 \<le> ex then m * 10 ^ nat ex else m / 10 ^ nat (- ex))
      in if neg then - v else v)"

definition lex_number :: "jsstring \<Rightarrow> (rat \<times> jsstring) option" where
  "lex_number s =
     (let (neg, s1) = lex_sign s
      in case lex_int_part s1 of
           None \<Rightarrow> None
         | Some (ip, s2) \<Rightarrow>
             (let (fr, s3) = lex_fraction s2; (ex, s4) = lex_exponent s3
              in Some (number_value neg ip fr ex, s4)))"

text \<open>The literal names \<^verbatim>\<open>null\<close>, \<^verbatim>\<open>true\<close> and \<^verbatim>\<open>false\<close>.\<close>

definition strip_prefix :: "jsstring \<Rightarrow> jsstring \<Rightarrow> jsstring option" where
  "strip_prefix p s = (if take (length p) s = p then Some (drop (length p) s) else None)"

definition lex_name :: "jsstring \<Rightarrow> (json \<times> jsstring) option" where
  "lex_name s =
     (case strip_prefix (str ''null'') s of
        Some r \<Rightarrow> Some (JNull, r)
      | None \<Rightarrow>
     (case strip_prefix (str ''true'') s of
        Some r \<Rightarrow> Some (JBool True, r)
      | None \<Rightarrow>
     (case strip_prefix (str ''false'') s of
        Some r \<Rightarrow> Some (JBool False, r)
      | None \<Rightarrow> None)))"

definition cons_token :: "token \<Rightarrow> token list option \<Rightarrow> token list option" where
  "cons_token t r = (case r of None \<Rightarrow> None | Some ts \<Rightarrow> Some (t # ts))"

lemma cons_unit_Some:
  "cons_unit u x = Some (v, r) \<longleftrightarrow> (\<exists>w. x = Some (w, r) \<and> v = u # w)"
  by (auto simp: cons_unit_def split: option.splits)

lemma lex_string_shorter: "lex_string s = Some (v, r) \<Longrightarrow> length r < length s"
proof (induction s arbitrary: v rule: length_induct)
  case (1 s)
  show ?case
  proof (cases s)
    case Nil
    with "1.prems" show ?thesis by simp
  next
    case (Cons c cs)
    have shorter: "length r < length t" if "lex_string t = Some (w, r)" "length t < length s"
      for t w using "1.IH" that by blast
    from "1.prems" Cons show ?thesis
      by (auto simp: cons_unit_Some split: if_splits list.splits option.splits
               dest!: shorter)
  qed
qed

lemma lex_int_part_shorter: "lex_int_part s = Some (v, r) \<Longrightarrow> length r < length s"
  by (auto simp: lex_int_part_def split: list.splits if_splits
           intro: le_imp_less_Suc length_dropWhile_le)

lemma lex_sign_le: "lex_sign s = (b, r) \<Longrightarrow> length r \<le> length s"
  by (auto simp: lex_sign_def split: list.splits if_splits)

lemma lex_exp_sign_le: "lex_exp_sign s = (b, r) \<Longrightarrow> length r \<le> length s"
  by (auto simp: lex_exp_sign_def split: list.splits if_splits)

lemma lex_fraction_le: "lex_fraction s = (v, r) \<Longrightarrow> length r \<le> length s"
  by (auto simp: lex_fraction_def split: list.splits if_splits
           intro: le_SucI length_dropWhile_le)

lemma lex_exponent_le:
  assumes a: "lex_exponent s = (v, r)"
  shows "length r \<le> length s"
proof (cases s)
  case Nil
  with a show ?thesis by (simp add: lex_exponent_def)
next
  case (Cons c t)
  obtain neg t' where t': "lex_exp_sign t = (neg, t')" by (cases "lex_exp_sign t")
  have "length (dropWhile is_digit t') \<le> length t"
    using lex_exp_sign_le [OF t'] length_dropWhile_le [of is_digit t'] by linarith
  with a Cons t' show ?thesis
    by (auto simp: lex_exponent_def Let_def split: if_splits)
qed

lemma lex_number_shorter:
  assumes a: "lex_number s = Some (v, r)"
  shows "length r < length s"
proof -
  obtain neg s1 where s1: "lex_sign s = (neg, s1)" by (cases "lex_sign s")
  from a s1 obtain ip s2 where s2: "lex_int_part s1 = Some (ip, s2)"
    by (auto simp: lex_number_def split: option.splits)
  obtain fr s3 where s3: "lex_fraction s2 = (fr, s3)" by (cases "lex_fraction s2")
  obtain ex s4 where s4: "lex_exponent s3 = (ex, s4)" by (cases "lex_exponent s3")
  from a s1 s2 s3 s4 have "r = s4" by (simp add: lex_number_def)
  with lex_sign_le [OF s1] lex_int_part_shorter [OF s2] lex_fraction_le [OF s3]
    lex_exponent_le [OF s4]
  show ?thesis by simp
qed

lemma strip_prefix_shorter: "strip_prefix p s = Some r \<Longrightarrow> p \<noteq> [] \<Longrightarrow> length r < length s"
  by (cases s) (auto simp: strip_prefix_def split: if_splits)

lemma lex_name_shorter: "lex_name s = Some (v, r) \<Longrightarrow> length r < length s"
  by (auto simp: lex_name_def str_def split: option.splits dest: strip_prefix_shorter)

text \<open>The lexer: white space is skipped between tokens, and a character that starts no
  token is an error.\<close>

function lex :: "jsstring \<Rightarrow> token list option" where
  "lex [] = Some []"
| "lex (c # cs) =
     (if is_ws c then lex cs
      else if c = CH CHR ''{'' then cons_token LBrace (lex cs)
      else if c = CH CHR ''}'' then cons_token RBrace (lex cs)
      else if c = CH CHR ''['' then cons_token LBracket (lex cs)
      else if c = CH CHR '']'' then cons_token RBracket (lex cs)
      else if c = CH CHR '':'' then cons_token Colon (lex cs)
      else if c = CH CHR '','' then cons_token Comma (lex cs)
      else if c = 0x22 then
        (case lex_string cs of
           None \<Rightarrow> None
         | Some (s, rest) \<Rightarrow> cons_token (Literal (JString s)) (lex rest))
      else if c = CH CHR ''-'' \<or> is_digit c then
        (case lex_number (c # cs) of
           None \<Rightarrow> None
         | Some (q, rest) \<Rightarrow> cons_token (Literal (JNumber q)) (lex rest))
      else
        (case lex_name (c # cs) of
           None \<Rightarrow> None
         | Some (v, rest) \<Rightarrow> cons_token (Literal v) (lex rest)))"
  by pat_completeness auto
termination
proof (relation "measure length")
  show "wf (measure length)" by simp
qed (auto dest: lex_string_shorter lex_number_shorter lex_name_shorter)

text \<open>
  The syntactic grammar, as a pushdown recogniser over the tokens:
  \<^verbatim>\<open>value ::= literal | [ ] | [ value (, value)* ] | { } | { string : value (, string : value)* }\<close>.
  A frame of the stack is an array or an object under construction; an object frame
  holds the key whose value is being read. \<open>expect\<close> says which tokens may come next.
\<close>

datatype frame =
    ArrayFrame "json list"
  | ObjectFrame "(jsstring \<times> json) list" "jsstring option"

datatype expect = ExpValue | ExpValueOrClose | ExpKeyOrClose | ExpKey | ExpColon | ExpSep

datatype pstate = Parsing expect "frame list" | Finished json

fun finish_value :: "json \<Rightarrow> frame list \<Rightarrow> pstate option" where
  "finish_value v [] = Some (Finished v)"
| "finish_value v (ArrayFrame es # st) = Some (Parsing ExpSep (ArrayFrame (es @ [v]) # st))"
| "finish_value v (ObjectFrame ms (Some k) # st) =
     Some (Parsing ExpSep (ObjectFrame (define_property ms k v) None # st))"
| "finish_value v (ObjectFrame ms None # st) = None"

definition start_value :: "frame list \<Rightarrow> token \<Rightarrow> pstate option" where
  "start_value st t =
     (case t of
        Literal v \<Rightarrow> finish_value v st
      | LBracket \<Rightarrow> Some (Parsing ExpValueOrClose (ArrayFrame [] # st))
      | LBrace \<Rightarrow> Some (Parsing ExpKeyOrClose (ObjectFrame [] None # st))
      | _ \<Rightarrow> None)"

definition start_key :: "frame list \<Rightarrow> token \<Rightarrow> pstate option" where
  "start_key st t =
     (case (t, st) of
        (Literal (JString k), ObjectFrame ms None # st') \<Rightarrow>
          Some (Parsing ExpColon (ObjectFrame ms (Some k) # st'))
      | _ \<Rightarrow> None)"

definition close_array :: "frame list \<Rightarrow> pstate option" where
  "close_array st =
     (case st of ArrayFrame es # st' \<Rightarrow> finish_value (JArray es) st' | _ \<Rightarrow> None)"

definition close_object :: "frame list \<Rightarrow> pstate option" where
  "close_object st =
     (case st of ObjectFrame ms None # st' \<Rightarrow> finish_value (JObject ms) st' | _ \<Rightarrow> None)"

definition after_comma :: "frame list \<Rightarrow> pstate option" where
  "after_comma st =
     (case st of
        ArrayFrame es # st' \<Rightarrow> Some (Parsing ExpValue st)
      | ObjectFrame ms None # st' \<Rightarrow> Some (Parsing ExpKey st)
      | _ \<Rightarrow> None)"

fun step :: "pstate \<Rightarrow> token \<Rightarrow> pstate option" where
  "step (Finished v) t = None"
| "step (Parsing e st) t =
     (case e of
        ExpValue \<Rightarrow> start_value st t
      | ExpValueOrClose \<Rightarrow> (if t = RBracket then close_array st else start_value st t)
      | ExpKeyOrClose \<Rightarrow> (if t = RBrace then close_object st else start_key st t)
      | ExpKey \<Rightarrow> start_key st t
      | ExpColon \<Rightarrow> (if t = Colon then Some (Parsing ExpValue st) else None)
      | ExpSep \<Rightarrow>
          (case t of
             Comma \<Rightarrow> after_comma st
           | RBracket \<Rightarrow> close_array st
           | RBrace \<Rightarrow> close_object st
           | _ \<Rightarrow> None))"

fun run :: "pstate \<Rightarrow> token list \<Rightarrow> json option" where
  "run s [] = (case s of Finished v \<Rightarrow> Some v | Parsing e st \<Rightarrow> None)"
| "run s (t # ts) = (case step s t of None \<Rightarrow> None | Some s' \<Rightarrow> run s' ts)"

definition JSON_parse :: "jsstring \<Rightarrow> json option" where
  "JSON_parse s = (case lex s of None \<Rightarrow> None | Some ts \<Rightarrow> run (Parsing ExpValue []) ts)"

text \<open>
  The same grammar, declaratively: which token lists are a value, a non-empty list of
  elements, a non-empty list of members, and what they denote. The members of an
  object are defined one after the other on the empty object. The recogniser accepts
  exactly these token lists, with these values (\<open>run_iff_grammar\<close> below).
\<close>

definition add_members :: "(jsstring \<times> json) list \<Rightarrow> (jsstring \<times> json) list \<Rightarrow> (jsstring \<times> json) list" where
  "add_members ms kvs = foldl (\<lambda>acc kv. define_property acc (fst kv) (snd kv)) ms kvs"

inductive is_value :: "token list \<Rightarrow> json \<Rightarrow> bool"
  and is_elements :: "token list \<Rightarrow> json list \<Rightarrow> bool"
  and is_members :: "token list \<Rightarrow> (jsstring \<times> json) list \<Rightarrow> bool"
where
  literal: "is_value [Literal v] v"
| empty_array: "is_value [LBracket, RBracket] (JArray [])"
| array: "is_elements ts vs \<Longrightarrow> is_value (LBracket # ts @ [RBracket]) (JArray vs)"
| empty_object: "is_value [LBrace, RBrace] (JObject [])"
| object: "is_members ts kvs \<Longrightarrow> is_value (LBrace # ts @ [RBrace]) (JObject (add_members [] kvs))"
| one_element: "is_value ts v \<Longrightarrow> is_elements ts [v]"
| more_elements:
    "is_value ts v \<Longrightarrow> is_elements ts' vs \<Longrightarrow> is_elements (ts @ Comma # ts') (v # vs)"
| one_member: "is_value ts v \<Longrightarrow> is_members (Literal (JString k) # Colon # ts) [(k, v)]"
| more_members:
    "is_value ts v \<Longrightarrow> is_members ts' kvs \<Longrightarrow>
     is_members (Literal (JString k) # Colon # ts @ Comma # ts') ((k, v) # kvs)"

section \<open>Requests to and responses from the model service\<close>

text \<open>
  The request object handed to \<^verbatim>\<open>ai.models.generateContent\<close>. A field that the
  source leaves out of an object literal is \<open>None\<close>. \<open>schema\<close> is the response schema
  language (\<^verbatim>\<open>Type.STRING\<close>, \<^verbatim>\<open>Type.NUMBER\<close>, \<^verbatim>\<open>Type.ARRAY\<close> with its items,
  \<^verbatim>\<open>Type.OBJECT\<close> with its properties and required names) as far as the source uses it.
\<close>

datatype schema =
    TypeString
  | TypeNumber
  | TypeArray schema
  | TypeObject "(jsstring \<times> schema) list" "jsstring list"

record inlineData =
  data :: "jsstring option"
  mimeType :: jsstring

datatype part = TextPart jsstring | InlineData inlineData

text \<open>Modelled from the spec: \<^verbatim>\<open>ChatMessage\<close> is declared in \<^verbatim>\<open>../types\<close>, which is not
  among the sources; the spec gives it as \<^verbatim>\<open>{role: enum(user, model), text: string}\<close>.\<close>

datatype role = User | Model

record ChatMessage =
  msg_role :: role
  msg_text :: jsstring

record content =
  role :: "role option"
  parts :: "part list"

datatype contents = OneContent content | ContentList "content list"

datatype tool = googleSearch

record thinkingConfig =
  thinkingBudget :: int

record config =
  systemInstruction :: "jsstring option"
  tools :: "tool list option"
  thinkingConfig :: "thinkingConfig option"
  responseMimeType :: "jsstring option"
  responseSchema :: "schema option"

record request =
  model :: jsstring
  contents :: contents
  config :: config

text \<open>
  The response object, as far as the source reads it: its text (a string or
  \<^verbatim>\<open>undefined\<close>) and the chain
  \<^verbatim>\<open>candidates[0].groundingMetadata.groundingChunks[i].web.{title, uri}\<close>, every link of
  which may be missing.
\<close>

record web =
  web_title :: "jsstring option"
  web_uri :: "jsstring option"

record groundingChunk =
  web :: "web option"

record groundingMetadata =
  groundingChunks :: "groundingChunk list option"

record candidate =
  groundingMetadata :: "groundingMetadata option"

record response =
  resp_text :: "jsstring option"
  candidates :: "candidate list option"

text \<open>
  The service itself is outside the module. It is a parameter
  \<open>generateContent :: request \<Rightarrow> 'e + response\<close>: \<open>Inr\<close> is the response the awaited
  promise resolves to, \<open>Inl e\<close> a rejection with the fault \<open>e\<close> (transport, authentication,
  anything the client library throws).
\<close>

section \<open>analyzeThreatContent\<close>

definition prompt_prefix :: jsstring where
  \<open>prompt_prefix = str
     (''Act as a Senior Cyber-Forensics Lead. Analyze the following artifact for social engineering markers: "'')\<close>

definition prompt_suffix :: jsstring where
  \<open>prompt_suffix = str
     (''".\<newline>'' @
      ''\<newline>'' @
      ''  AUDIT SCOPE:\<newline>'' @
      ''  1. ADVANCED EVASION: Check for character substitution, hidden subdomains, or redirection loops.\<newline>'' @
      ''  2. PSYCHOLOGICAL VECTORS: Identify triggers like Urgency, Fear, Authority, or Social Proof.\<newline>'' @
      ''  3. TECHNICAL RISK: Evaluate the likely payload (Credential harvesting, malware delivery, or data scraping).\<newline>'' @
      ''\<newline>'' @
      ''  OUTPUT PROTOCOL (JSON ONLY):\<newline>'' @
      ''  - status: 'Safe' | 'Suspicious' | 'Dangerous'\<newline>'' @
      ''  - riskLevel: 0-100 (Integer)\<newline>'' @
      ''  - reasoning: High-level professional technical summary of the findings.\<newline>'' @
      ''  - suggestedActions: Tactical list of defensive protocols for the user.\<newline>'' @
      ''  - detectedIndicators: Technical terminology of artifacts found.'')\<close>

text \<open>\<^verbatim>\<open>s.split(c)\<close> for a separator \<open>c\<close> of one code unit, which is how the source calls
  it: the segments between the separators, at least one.\<close>

fun split :: "code_unit \<Rightarrow> jsstring \<Rightarrow> jsstring list" where
  "split c [] = [[]]"
| "split c (x # xs) =
     (if x = c then [] # split c xs
      else (case split c xs of [] \<Rightarrow> [[x]] | seg # segs \<Rightarrow> (x # seg) # segs))"

text \<open>\<^verbatim>\<open>xs[i]\<close>: reading past the end of an array gives \<^verbatim>\<open>undefined\<close>.\<close>

definition index :: "'a list \<Rightarrow> nat \<Rightarrow> 'a option" where
  "index xs i = (if i < length xs then Some (xs ! i) else None)"

text \<open>Truthiness of an optional string argument: \<^verbatim>\<open>undefined\<close> and the empty string
  are falsy.\<close>

definition truthy :: "jsstring option \<Rightarrow> bool" where
  "truthy x = (case x of None \<Rightarrow> False | Some s \<Rightarrow> s \<noteq> [])"

definition analysis_parts :: "jsstring \<Rightarrow> jsstring option \<Rightarrow> part list" where
  "analysis_parts input_text imageData =
     (let prompt = prompt_prefix @ input_text @ prompt_suffix;
          parts = [TextPart prompt]
      in case imageData of
           None \<Rightarrow> parts
         | Some d \<Rightarrow>
             if truthy imageData
             then parts @ [InlineData \<lparr>data = index (split (CH CHR '','') d) 1,
                                        mimeType = str ''image/jpeg''\<rparr>]
             else parts)"

definition analysis_schema :: schema where
  "analysis_schema =
     TypeObject
       [(str ''status'', TypeString),
        (str ''riskLevel'', TypeNumber),
        (str ''reasoning'', TypeString),
        (str ''suggestedActions'', TypeArray TypeString),
        (str ''detectedIndicators'', TypeArray TypeString)]
       [str ''status'', str ''riskLevel'', str ''reasoning'', str ''suggestedActions'',
        str ''detectedIndicators'']"

definition analysis_request :: "jsstring \<Rightarrow> jsstring option \<Rightarrow> request" where
  "analysis_request input_text imageData =
     \<lparr>model = str ''gemini-3-flash-preview'',
      contents = OneContent \<lparr>role = None, parts = analysis_parts input_text imageData\<rparr>,
      config = \<lparr>systemInstruction = None, tools = None, thinkingConfig = None,
                responseMimeType = Some (str ''application/json''),
                responseSchema = Some analysis_schema\<rparr>\<rparr>"

text \<open>The object of the \<^verbatim>\<open>catch\<close> branch.\<close>

definition fallback :: json where
  "fallback =
     JObject
       [(str ''status'', JString (str ''Suspicious'')),
        (str ''riskLevel'', JNumber 50),
        (str ''reasoning'', JString (str ''Forensic parser anomaly. Manual verification required.'')),
        (str ''suggestedActions'',
           JArray [JString (str ''Do not click links''), JString (str ''Verify source identity'')]),
        (str ''detectedIndicators'', JArray [JString (str ''Parser Error'')])]"

text \<open>\<^verbatim>\<open>JSON.parse(response.text)\<close>: the argument is converted to a string first, and
  \<^verbatim>\<open>undefined\<close> becomes the nine characters \<^verbatim>\<open>undefined\<close>.\<close>

definition ToString :: "jsstring option \<Rightarrow> jsstring" where
  "ToString x = (case x of None \<Rightarrow> str ''undefined'' | Some s \<Rightarrow> s)"

text \<open>
  The function. The cast \<^verbatim>\<open>as AnalysisResult\<close> does nothing at run time, so the value
  returned is whatever \<^verbatim>\<open>JSON.parse\<close> produced; the \<^verbatim>\<open>try\<close> block encloses the parse
  and nothing else, so a rejection of the awaited call leaves the function as it is.
\<close>

definition analyzeThreatContent ::
  "(request \<Rightarrow> 'e + response) \<Rightarrow> jsstring \<Rightarrow> jsstring option \<Rightarrow> 'e + json" where
  "analyzeThreatContent generateContent input_text imageData =
     (case generateContent (analysis_request input_text imageData) of
        Inl e \<Rightarrow> Inl e
      | Inr response \<Rightarrow>
          (case JSON_parse (ToString (resp_text response)) of
             Some v \<Rightarrow> Inr v
           | None \<Rightarrow> Inr fallback))"

section \<open>getChatResponse\<close>

datatype ChatMode = Lite | Search | Thinking

definition systemInstruction_text :: jsstring where
  \<open>systemInstruction_text = str
     (''You are the SAFECLICK Chief Intelligence Mentor. \<newline>'' @
      ''\<newline>'' @
      ''PERSONA: You are a world-class Cyber-Intelligence Analyst and Security Mentor. Your tone is authoritative, analytical, and highly precise, yet intellectually supportive. You do not give generic advice; you provide forensic-grade insights.\<newline>'' @
      ''\<newline>'' @
      ''REASONING FRAMEWORK:\<newline>'' @
      ''For every query, structure your response as follows:\<newline>'' @
      ''1. **TACTICAL SUMMARY**: A Bottom-Line-Up-Front (BLUF) executive assessment.\<newline>'' @
      ''2. **THREAT MECHANICS**: Deep reasoning into the "Why" and "How". Explain psychological triggers (Urgency, Authority) and technical vectors (Homograph attacks, MFA fatigue).\<newline>'' @
      ''3. **TACTICAL HARDENING**: Concrete, step-by-step defensive actions for the user.\<newline>'' @
      ''4. **LEGAL INTEL**: Relevant Indian laws (IT Act, IPC, DPDP) and 1930 reporting steps where applicable.\<newline>'' @
      ''\<newline>'' @
      ''GUIDELINES:\<newline>'' @
      ''- Use professional terminology (TTPs, Vectors, Payloads, Zero-Trust).\<newline>'' @
      ''- Use analogies to explain complex topics.\<newline>'' @
      ''- Maintain a professional, supportive, and trustworthy tone.\<newline>'' @
      ''- If in 'thinking' (Analyst) mode, simulate an attacker's thought process to provide better defense.'')\<close>

record source =
  title :: "jsstring option"
  uri :: "jsstring option"

record ChatReply =
  reply_text :: jsstring
  sources :: "source list option"

text \<open>What the function can throw: the rejection of the awaited call, or the
  \<^verbatim>\<open>TypeError\<close> of reading a property of \<^verbatim>\<open>undefined\<close>.\<close>

datatype 'e fault = Rejected 'e | TypeError

definition chat_request :: "ChatMessage list \<Rightarrow> ChatMode option \<Rightarrow> request" where
  "chat_request history mode_arg =
     (let mode = (case mode_arg of None \<Rightarrow> Lite | Some m \<Rightarrow> m);
          model0 = str ''gemini-3-flash-preview'';
          config0 = \<lparr>systemInstruction = Some systemInstruction_text, tools = None,
                     thinkingConfig = None, responseMimeType = None, responseSchema = None\<rparr>;
          (model1, config1) =
            (if mode = Search then (model0, config0\<lparr>tools := Some [googleSearch]\<rparr>)
             else if mode = Thinking then
               (str ''gemini-3-pro-preview'',
                config0\<lparr>thinkingConfig := Some \<lparr>thinkingBudget = 32768\<rparr>\<rparr>)
             else if mode = Lite then (str ''gemini-flash-lite-latest'', config0)
             else (model0, config0))
      in \<lparr>model = model1,
          contents =
            ContentList
              (map (\<lambda>m. \<lparr>role = Some (msg_role m), parts = [TextPart (msg_text m)]\<rparr>) history),
          config = config1\<rparr>)"

text \<open>\<^verbatim>\<open>response.candidates?.[0]?.groundingMetadata?.groundingChunks\<close>\<close>

definition grounding_chunks :: "response \<Rightarrow> groundingChunk list option" where
  "grounding_chunks response =
     (case candidates response of
        None \<Rightarrow> None
      | Some cs \<Rightarrow>
          (case index cs 0 of
             None \<Rightarrow> None
           | Some c \<Rightarrow>
               (case groundingMetadata c of
                  None \<Rightarrow> None
                | Some gm \<Rightarrow> groundingChunks gm)))"

text \<open>The callback of \<^verbatim>\<open>map\<close> reads \<^verbatim>\<open>chunk.web.title\<close> and \<^verbatim>\<open>chunk.web.uri\<close>; on a
  chunk without \<^verbatim>\<open>web\<close> that read throws.\<close>

definition to_source :: "groundingChunk \<Rightarrow> 'e fault + source" where
  "to_source chunk =
     (case web chunk of
        None \<Rightarrow> Inl TypeError
      | Some w \<Rightarrow> Inr \<lparr>title = web_title w, uri = web_uri w\<rparr>)"

fun map_throwing :: "('a \<Rightarrow> 'x + 'b) \<Rightarrow> 'a list \<Rightarrow> 'x + 'b list" where
  "map_throwing f [] = Inr []"
| "map_throwing f (x # xs) =
     (case f x of
        Inl e \<Rightarrow> Inl e
      | Inr y \<Rightarrow> (case map_throwing f xs of Inl e \<Rightarrow> Inl e | Inr ys \<Rightarrow> Inr (y # ys)))"

definition extract_sources :: "response \<Rightarrow> 'e fault + source list option" where
  "extract_sources response =
     (case grounding_chunks response of
        None \<Rightarrow> Inr None
      | Some chunks \<Rightarrow>
          (case map_throwing to_source (filter (\<lambda>chunk. web chunk \<noteq> None) chunks) of
             Inl e \<Rightarrow> Inl e
           | Inr srcs \<Rightarrow> Inr (Some srcs)))"

text \<open>\<^verbatim>\<open>response.text || "Communication link lost."\<close>\<close>

definition or_default :: "jsstring option \<Rightarrow> jsstring \<Rightarrow> jsstring" where
  "or_default x d = (if truthy x then (case x of Some s \<Rightarrow> s | None \<Rightarrow> d) else d)"

definition getChatResponse ::
  "(request \<Rightarrow> 'e + response) \<Rightarrow> ChatMessage list \<Rightarrow> ChatMode option \<Rightarrow> 'e fault + ChatReply" where
  "getChatResponse generateContent history mode_arg =
     (case generateContent (chat_request history mode_arg) of
        Inl e \<Rightarrow> Inl (Rejected e)
      | Inr response \<Rightarrow>
          (case extract_sources response of
             Inl e \<Rightarrow> Inl e
           | Inr srcs \<Rightarrow>
               Inr \<lparr>reply_text = or_default (resp_text response) (str ''Communication link lost.''),
                    sources = srcs\<rparr>))"

section \<open>Vocabulary of the properties\<close>

text \<open>A service that gives the same outcome to every request: the simulated model
  response of the properties below.\<close>

definition replies :: "'e + response \<Rightarrow> request \<Rightarrow> 'e + response" where
  "replies outcome req = outcome"

text \<open>
  What it means for a JSON value to satisfy a schema: a string, a number, an array of
  conforming items, or an object that has every required property and whose declared
  properties, where present, conform.
\<close>

fun conforms :: "schema \<Rightarrow> json \<Rightarrow> bool" where
  "conforms TypeString v = (case v of JString s \<Rightarrow> True | _ \<Rightarrow> False)"
| "conforms TypeNumber v = (case v of JNumber q \<Rightarrow> True | _ \<Rightarrow> False)"
| "conforms (TypeArray items) v =
     (case v of JArray vs \<Rightarrow> list_all (conforms items) vs | _ \<Rightarrow> False)"
| "conforms (TypeObject props required) v =
     (case v of
        JObject ms \<Rightarrow>
          list_all (\<lambda>k. map_of ms k \<noteq> None) required \<and>
          list_all (\<lambda>p. case map_of ms (fst p) of
                            None \<Rightarrow> True
                          | Some x \<Rightarrow> conforms (snd p) x) props
      | _ \<Rightarrow> False)"

text \<open>The \<^verbatim>\<open>riskLevel\<close> of a result is an integer in the closed interval from 0 to 100.\<close>

definition riskLevel_in_range :: "json \<Rightarrow> bool" where
  "riskLevel_in_range v =
     (case get_field v (str ''riskLevel'') of
        Some (JNumber q) \<Rightarrow> of_int \<lfloor>q\<rfloor> = q \<and> 0 \<le> q \<and> q \<le> 100
      | _ \<Rightarrow> False)"


text \<open>The citations of the specification: one \<^verbatim>\<open>{title, uri}\<close> for each chunk that has
  a web reference, in the order of the chunks.\<close>

fun web_references :: "groundingChunk list \<Rightarrow> source list" where
  "web_references [] = []"
| "web_references (chunk # chunks) =
     (case web chunk of
        None \<Rightarrow> web_references chunks
      | Some w \<Rightarrow> \<lparr>title = web_title w, uri = web_uri w\<rparr> # web_references chunks)"

text \<open>Continuing from an optional state, and what the recogniser has still to read in
  each kind of state: the notions of the proof that it accepts the grammar only.\<close>

definition resume :: "pstate option \<Rightarrow> token list \<Rightarrow> json option" where
  "resume s ts = (case s of None \<Rightarrow> None | Some s' \<Rightarrow> run s' ts)"

definition value_prefix :: "frame list \<Rightarrow> token list \<Rightarrow> json \<Rightarrow> bool" where
  "value_prefix st ts r \<longleftrightarrow>
     (\<exists>ts1 ts2 v. ts = ts1 @ ts2 \<and> is_value ts1 v \<and> resume (finish_value v st) ts2 = Some r)"

definition array_rest :: "json list \<Rightarrow> frame list \<Rightarrow> token list \<Rightarrow> json \<Rightarrow> bool" where
  "array_rest es st ts r \<longleftrightarrow>
     (\<exists>ts2. ts = RBracket # ts2 \<and> resume (finish_value (JArray es) st) ts2 = Some r) \<or>
     (\<exists>ts1 ts2 vs. ts = Comma # ts1 @ RBracket # ts2 \<and> is_elements ts1 vs \<and>
        resume (finish_value (JArray (es @ vs)) st) ts2 = Some r)"

definition members_prefix ::
  "(jsstring \<times> json) list \<Rightarrow> frame list \<Rightarrow> token list \<Rightarrow> json \<Rightarrow> bool" where
  "members_prefix ms st ts r \<longleftrightarrow>
     (\<exists>ts1 ts2 kvs. ts = ts1 @ RBrace # ts2 \<and> is_members ts1 kvs \<and>
        resume (finish_value (JObject (add_members ms kvs)) st) ts2 = Some r)"

definition object_rest ::
  "(jsstring \<times> json) list \<Rightarrow> frame list \<Rightarrow> token list \<Rightarrow> json \<Rightarrow> bool" where
  "object_rest ms st ts r \<longleftrightarrow>
     (\<exists>ts2. ts = RBrace # ts2 \<and> resume (finish_value (JObject ms) st) ts2 = Some r) \<or>
     (\<exists>ts1. ts = Comma # ts1 \<and> members_prefix ms st ts1 r)"

section \<open>Auxiliary facts\<close>

subsection \<open>The recogniser accepts the grammar, and nothing else\<close>

lemma grammar_accepted:
  "is_value ts v \<Longrightarrow>
     (\<forall>st rest. run (Parsing ExpValue st) (ts @ rest) = resume (finish_value v st) rest \<and>
                run (Parsing ExpValueOrClose st) (ts @ rest) = resume (finish_value v st) rest)"
  "is_elements ts vs \<Longrightarrow>
     (\<forall>es st rest.
        run (Parsing ExpValue (ArrayFrame es # st)) (ts @ rest) =
          run (Parsing ExpSep (ArrayFrame (es @ vs) # st)) rest \<and>
        run (Parsing ExpValueOrClose (ArrayFrame es # st)) (ts @ rest) =
          run (Parsing ExpSep (ArrayFrame (es @ vs) # st)) rest)"
  "is_members ts kvs \<Longrightarrow>
     (\<forall>ms st rest.
        run (Parsing ExpKey (ObjectFrame ms None # st)) (ts @ rest) =
          run (Parsing ExpSep (ObjectFrame (add_members ms kvs) None # st)) rest \<and>
        run (Parsing ExpKeyOrClose (ObjectFrame ms None # st)) (ts @ rest) =
          run (Parsing ExpSep (ObjectFrame (add_members ms kvs) None # st)) rest)"
proof (induction rule: is_value_is_elements_is_members.inducts)
  case (literal v)
  then show ?case by (simp add: start_value_def resume_def)
next
  case empty_array
  then show ?case by (simp add: start_value_def close_array_def resume_def)
next
  case (array ts vs)
  then show ?case by (simp add: start_value_def close_array_def resume_def)
next
  case empty_object
  then show ?case by (simp add: start_value_def close_object_def resume_def)
next
  case (object ts kvs)
  then show ?case by (simp add: start_value_def close_object_def resume_def)
next
  case (one_element ts v)
  then show ?case by (simp add: resume_def)
next
  case (more_elements ts v ts' vs)
  then show ?case by (simp add: resume_def after_comma_def)
next
  case (one_member ts v k)
  then show ?case by (simp add: resume_def start_key_def add_members_def)
next
  case (more_members ts v ts' kvs k)
  then show ?case by (simp add: resume_def start_key_def add_members_def after_comma_def)
qed

lemma resume_Some: "resume s ts = Some r \<longleftrightarrow> (\<exists>s'. s = Some s' \<and> run s' ts = Some r)"
  by (cases s) (simp_all add: resume_def)

lemma run_Finished: "run (Finished v) ts = Some r \<longleftrightarrow> ts = [] \<and> r = v"
  by (cases ts) auto

lemma run_value:
  assumes "run (Parsing ExpValue st) ts = Some r"
  shows "(\<exists>v ts'. ts = Literal v # ts' \<and> resume (finish_value v st) ts' = Some r) \<or>
         (\<exists>ts'. ts = LBracket # ts' \<and>
                run (Parsing ExpValueOrClose (ArrayFrame [] # st)) ts' = Some r) \<or>
         (\<exists>ts'. ts = LBrace # ts' \<and>
                run (Parsing ExpKeyOrClose (ObjectFrame [] None # st)) ts' = Some r)"
proof (cases ts)
  case Nil
  with assms show ?thesis by simp
next
  case (Cons t ts')
  with assms show ?thesis
    by (cases t) (auto simp: start_value_def resume_def split: option.splits)
qed

lemma run_value_or_close:
  assumes "run (Parsing ExpValueOrClose (ArrayFrame es # st)) ts = Some r"
  shows "(\<exists>ts'. ts = RBracket # ts' \<and> resume (finish_value (JArray es) st) ts' = Some r) \<or>
         run (Parsing ExpValue (ArrayFrame es # st)) ts = Some r"
proof (cases ts)
  case Nil
  with assms show ?thesis by simp
next
  case (Cons t ts')
  with assms show ?thesis
    by (auto simp: close_array_def resume_def split: option.splits if_splits)
qed

lemma run_key_or_close:
  assumes "run (Parsing ExpKeyOrClose (ObjectFrame ms None # st)) ts = Some r"
  shows "(\<exists>ts'. ts = RBrace # ts' \<and> resume (finish_value (JObject ms) st) ts' = Some r) \<or>
         run (Parsing ExpKey (ObjectFrame ms None # st)) ts = Some r"
proof (cases ts)
  case Nil
  with assms show ?thesis by simp
next
  case (Cons t ts')
  with assms show ?thesis
    by (auto simp: close_object_def resume_def split: option.splits if_splits)
qed

lemma run_key:
  assumes "run (Parsing ExpKey (ObjectFrame ms None # st)) ts = Some r"
  shows "\<exists>k ts'. ts = Literal (JString k) # Colon # ts' \<and>
           run (Parsing ExpValue (ObjectFrame ms (Some k) # st)) ts' = Some r"
proof (cases ts)
  case Nil
  with assms show ?thesis by simp
next
  case (Cons t ts')
  show ?thesis
  proof (cases ts')
    case Nil
    with assms Cons show ?thesis
      by (auto simp: start_key_def split: option.splits token.splits json.splits)
  next
    case (Cons t' ts'')
    with assms \<open>ts = t # ts'\<close> show ?thesis
      by (auto simp: start_key_def split: option.splits token.splits json.splits if_splits)
  qed
qed

lemma run_sep_array:
  assumes "run (Parsing ExpSep (ArrayFrame es # st)) ts = Some r"
  shows "(\<exists>ts'. ts = RBracket # ts' \<and> resume (finish_value (JArray es) st) ts' = Some r) \<or>
         (\<exists>ts'. ts = Comma # ts' \<and> run (Parsing ExpValue (ArrayFrame es # st)) ts' = Some r)"
proof (cases ts)
  case Nil
  with assms show ?thesis by simp
next
  case (Cons t ts')
  with assms show ?thesis
    by (cases t)
       (auto simp: close_array_def close_object_def after_comma_def resume_def
             split: option.splits)
qed

lemma run_sep_object:
  assumes "run (Parsing ExpSep (ObjectFrame ms None # st)) ts = Some r"
  shows "(\<exists>ts'. ts = RBrace # ts' \<and> resume (finish_value (JObject ms) st) ts' = Some r) \<or>
         (\<exists>ts'. ts = Comma # ts' \<and> run (Parsing ExpKey (ObjectFrame ms None # st)) ts' = Some r)"
proof (cases ts)
  case Nil
  with assms show ?thesis by simp
next
  case (Cons t ts')
  with assms show ?thesis
    by (cases t)
       (auto simp: close_array_def close_object_def after_comma_def resume_def
             split: option.splits)
qed

lemma accepted_grammar_aux:
  "(\<forall>st r. run (Parsing ExpValue st) ts = Some r \<longrightarrow> value_prefix st ts r) \<and>
   (\<forall>es st r. run (Parsing ExpSep (ArrayFrame es # st)) ts = Some r \<longrightarrow> array_rest es st ts r) \<and>
   (\<forall>ms st r. run (Parsing ExpSep (ObjectFrame ms None # st)) ts = Some r \<longrightarrow>
      object_rest ms st ts r) \<and>
   (\<forall>ms st r. run (Parsing ExpKey (ObjectFrame ms None # st)) ts = Some r \<longrightarrow>
      members_prefix ms st ts r)"
proof (induction ts rule: length_induct)
  case (1 ts)
  have IH_value: "value_prefix st ts' r"
    if "length ts' < length ts" "run (Parsing ExpValue st) ts' = Some r" for ts' st r
    using 1 that by blast
  have IH_array: "array_rest es st ts' r"
    if "length ts' < length ts" "run (Parsing ExpSep (ArrayFrame es # st)) ts' = Some r"
    for ts' es st r
    using 1 that by blast
  have IH_object: "object_rest ms st ts' r"
    if "length ts' < length ts" "run (Parsing ExpSep (ObjectFrame ms None # st)) ts' = Some r"
    for ts' ms st r
    using 1 that by blast
  have IH_key: "members_prefix ms st ts' r"
    if "length ts' < length ts" "run (Parsing ExpKey (ObjectFrame ms None # st)) ts' = Some r"
    for ts' ms st r
    using 1 that by blast

  have elements_then_close: "value_prefix st (LBracket # ts') r"
    if len: "length ts' < length ts"
      and run: "run (Parsing ExpValue (ArrayFrame [] # st)) ts' = Some r" for ts' st r
  proof -
    from IH_value [OF len run] obtain ts1 ts2 v where
      ts': "ts' = ts1 @ ts2" and v: "is_value ts1 v"
      and rest: "run (Parsing ExpSep (ArrayFrame [v] # st)) ts2 = Some r"
      by (auto simp: value_prefix_def resume_def)
    from ts' len have "length ts2 < length ts" by simp
    from IH_array [OF this rest] show ?thesis
      unfolding array_rest_def
    proof (elim disjE exE conjE)
      fix ts3 assume "ts2 = RBracket # ts3"
        and "resume (finish_value (JArray [v]) st) ts3 = Some r"
      moreover have "is_value (LBracket # ts1 @ [RBracket]) (JArray [v])"
        using v by (intro array one_element)
      ultimately show ?thesis
        unfolding value_prefix_def ts'
        by (intro exI [of _ "LBracket # ts1 @ [RBracket]"] exI [of _ ts3] exI [of _ "JArray [v]"])
           simp
    next
      fix ts3 ts4 vs assume "ts2 = Comma # ts3 @ RBracket # ts4" and "is_elements ts3 vs"
        and "resume (finish_value (JArray ([v] @ vs)) st) ts4 = Some r"
      moreover from this v have "is_value (LBracket # (ts1 @ Comma # ts3) @ [RBracket]) (JArray (v # vs))"
        by (intro array more_elements)
      ultimately show ?thesis
        unfolding value_prefix_def ts'
        by (intro exI [of _ "LBracket # (ts1 @ Comma # ts3) @ [RBracket]"] exI [of _ ts4]
              exI [of _ "JArray (v # vs)"])
           simp
    qed
  qed

  have key_then_members: "members_prefix ms st ts' r"
    if len: "length ts' \<le> length ts"
      and run: "run (Parsing ExpKey (ObjectFrame ms None # st)) ts' = Some r" for ts' ms st r
  proof -
    from run_key [OF run] obtain k ts'' where
      ts': "ts' = Literal (JString k) # Colon # ts''"
      and run': "run (Parsing ExpValue (ObjectFrame ms (Some k) # st)) ts'' = Some r"
      by blast
    from ts' len have "length ts'' < length ts" by simp
    from IH_value [OF this run'] obtain ts1 ts2 v where
      ts'': "ts'' = ts1 @ ts2" and v: "is_value ts1 v"
      and rest: "run (Parsing ExpSep (ObjectFrame (define_property ms k v) None # st)) ts2 = Some r"
      by (auto simp: value_prefix_def resume_def)
    from ts' ts'' len have len2: "length ts2 < length ts" by simp
    from IH_object [OF len2 rest] show ?thesis
      unfolding object_rest_def
    proof (elim disjE exE conjE)
      fix ts3 assume "ts2 = RBrace # ts3"
        and "resume (finish_value (JObject (define_property ms k v)) st) ts3 = Some r"
      moreover have "is_members (Literal (JString k) # Colon # ts1) [(k, v)]"
        using v by (rule one_member)
      ultimately show ?thesis
        unfolding members_prefix_def ts' ts''
        by (intro exI [of _ "Literal (JString k) # Colon # ts1"] exI [of _ ts3]
              exI [of _ "[(k, v)]"])
           (simp add: add_members_def)
    next
      fix ts3 assume ts2: "ts2 = Comma # ts3"
        and "members_prefix (define_property ms k v) st ts3 r"
      then obtain ts4 ts5 kvs where "ts3 = ts4 @ RBrace # ts5" and "is_members ts4 kvs"
        and "resume (finish_value (JObject (add_members (define_property ms k v) kvs)) st) ts5 = Some r"
        by (auto simp: members_prefix_def)
      moreover from this v
      have "is_members (Literal (JString k) # Colon # ts1 @ Comma # ts4) ((k, v) # kvs)"
        by (intro more_members)
      ultimately show ?thesis
        unfolding members_prefix_def ts' ts'' ts2
        by (intro exI [of _ "Literal (JString k) # Colon # ts1 @ Comma # ts4"] exI [of _ ts5]
              exI [of _ "(k, v) # kvs"])
           (simp add: add_members_def)
    qed
  qed

  show ?case
  proof (intro conjI allI impI)
    fix st r assume run: "run (Parsing ExpValue st) ts = Some r"
    from run_value [OF run] show "value_prefix st ts r"
    proof (elim disjE exE conjE)
      fix v ts' assume "ts = Literal v # ts'" "resume (finish_value v st) ts' = Some r"
      then show ?thesis
        unfolding value_prefix_def
        by (intro exI [of _ "[Literal v]"] exI [of _ ts'] exI [of _ v]) (simp add: literal)
    next
      fix ts' assume ts: "ts = LBracket # ts'"
        and run': "run (Parsing ExpValueOrClose (ArrayFrame [] # st)) ts' = Some r"
      from run_value_or_close [OF run'] show ?thesis
      proof (elim disjE exE conjE)
        fix ts'' assume "ts' = RBracket # ts''" "resume (finish_value (JArray []) st) ts'' = Some r"
        then show ?thesis
          unfolding value_prefix_def ts
          by (intro exI [of _ "[LBracket, RBracket]"] exI [of _ ts''] exI [of _ "JArray []"])
             (simp add: empty_array)
      next
        assume "run (Parsing ExpValue (ArrayFrame [] # st)) ts' = Some r"
        with ts show ?thesis by (simp add: elements_then_close)
      qed
    next
      fix ts' assume ts: "ts = LBrace # ts'"
        and run': "run (Parsing ExpKeyOrClose (ObjectFrame [] None # st)) ts' = Some r"
      from run_key_or_close [OF run'] show ?thesis
      proof (elim disjE exE conjE)
        fix ts'' assume "ts' = RBrace # ts''" "resume (finish_value (JObject []) st) ts'' = Some r"
        then show ?thesis
          unfolding value_prefix_def ts
          by (intro exI [of _ "[LBrace, RBrace]"] exI [of _ ts''] exI [of _ "JObject []"])
             (simp add: empty_object)
      next
        assume "run (Parsing ExpKey (ObjectFrame [] None # st)) ts' = Some r"
        with ts have "members_prefix [] st ts' r" by (simp add: key_then_members)
        then obtain ts1 ts2 kvs where "ts' = ts1 @ RBrace # ts2" "is_members ts1 kvs"
          "resume (finish_value (JObject (add_members [] kvs)) st) ts2 = Some r"
          by (auto simp: members_prefix_def)
        then show ?thesis
          unfolding value_prefix_def ts
          by (intro exI [of _ "LBrace # ts1 @ [RBrace]"] exI [of _ ts2]
                exI [of _ "JObject (add_members [] kvs)"])
             (simp add: object)
      qed
    qed
  next
    fix es st r assume run: "run (Parsing ExpSep (ArrayFrame es # st)) ts = Some r"
    from run_sep_array [OF run] show "array_rest es st ts r"
    proof (elim disjE exE conjE)
      fix ts' assume "ts = RBracket # ts'" "resume (finish_value (JArray es) st) ts' = Some r"
      then show ?thesis by (simp add: array_rest_def)
    next
      fix ts' assume ts: "ts = Comma # ts'"
        and run': "run (Parsing ExpValue (ArrayFrame es # st)) ts' = Some r"
      from ts have len: "length ts' < length ts" by simp
      from IH_value [OF len run'] obtain ts1 ts2 v where
        ts': "ts' = ts1 @ ts2" and v: "is_value ts1 v"
        and rest: "run (Parsing ExpSep (ArrayFrame (es @ [v]) # st)) ts2 = Some r"
        by (auto simp: value_prefix_def resume_def)
      from ts ts' have "length ts2 < length ts" by simp
      from IH_array [OF this rest] show ?thesis
        unfolding array_rest_def [of "es @ [v]"]
      proof (elim disjE exE conjE)
        fix ts3 assume "ts2 = RBracket # ts3"
          and "resume (finish_value (JArray (es @ [v])) st) ts3 = Some r"
        moreover have "is_elements ts1 [v]" using v by (rule one_element)
        ultimately show ?thesis
          unfolding array_rest_def ts ts' by auto
      next
        fix ts3 ts4 vs assume "ts2 = Comma # ts3 @ RBracket # ts4" and "is_elements ts3 vs"
          and "resume (finish_value (JArray ((es @ [v]) @ vs)) st) ts4 = Some r"
        moreover from this v have "is_elements (ts1 @ Comma # ts3) (v # vs)"
          by (intro more_elements)
        ultimately show ?thesis
          unfolding array_rest_def ts ts'
          by (intro disjI2 exI [of _ "ts1 @ Comma # ts3"] exI [of _ ts4] exI [of _ "v # vs"])
             simp
      qed
    qed
  next
    fix ms st r assume run: "run (Parsing ExpSep (ObjectFrame ms None # st)) ts = Some r"
    from run_sep_object [OF run] show "object_rest ms st ts r"
    proof (elim disjE exE conjE)
      fix ts' assume "ts = RBrace # ts'" "resume (finish_value (JObject ms) st) ts' = Some r"
      then show ?thesis by (simp add: object_rest_def)
    next
      fix ts' assume ts: "ts = Comma # ts'"
        and run': "run (Parsing ExpKey (ObjectFrame ms None # st)) ts' = Some r"
      from ts have "length ts' \<le> length ts" by simp
      from key_then_members [OF this run'] ts show ?thesis
        by (simp add: object_rest_def)
    qed
  next
    fix ms st r assume run: "run (Parsing ExpKey (ObjectFrame ms None # st)) ts = Some r"
    then show "members_prefix ms st ts r" by (simp add: key_then_members)
  qed
qed

lemma run_iff_grammar: "run (Parsing ExpValue []) ts = Some v \<longleftrightarrow> is_value ts v"
proof
  assume "run (Parsing ExpValue []) ts = Some v"
  with accepted_grammar_aux [of ts] have "value_prefix [] ts v" by blast
  then show "is_value ts v"
    by (auto simp: value_prefix_def resume_def run_Finished)
next
  assume "is_value ts v"
  from grammar_accepted(1) [OF this]
  have "run (Parsing ExpValue []) (ts @ []) = resume (finish_value v []) []"
    by blast
  then show "run (Parsing ExpValue []) ts = Some v"
    by (simp add: resume_def)
qed

lemma JSON_parse_iff:
  "JSON_parse s = Some v \<longleftrightarrow> (\<exists>ts. lex s = Some ts \<and> is_value ts v)"
  by (simp add: JSON_parse_def run_iff_grammar split: option.splits)

text \<open>Some texts and what \<^verbatim>\<open>JSON.parse\<close> makes of them: a trailing comma, a leading
  zero, a bare word and an unquoted key are errors; the last of two equal keys wins.\<close>

lemma JSON_parse_rejects:
  \<open>JSON_parse (str ''[1,]'') = None\<close>
  \<open>JSON_parse (str ''{"a":1,}'') = None\<close>
  \<open>JSON_parse (str ''01'') = None\<close>
  \<open>JSON_parse (str ''{a:1}'') = None\<close>
  \<open>JSON_parse (str ''{"a":1} x'') = None\<close>
  \<open>JSON_parse (str ''"abc'') = None\<close>
  by code_simp+

lemma JSON_parse_accepts:
  \<open>JSON_parse (str '' [1, -2.5e1, "x", true, false, null, {}] '') =
     Some (JArray [JNumber 1, JNumber (- 25), JString (str ''x''), JBool True, JBool False,
                   JNull, JObject []])\<close>
  \<open>JSON_parse (str ''{"a":1,"b":[2],"a":3}'') =
     Some (JObject [(str ''a'', JNumber 3), (str ''b'', JArray [JNumber 2])])\<close>
  \<open>JSON_parse (str ''"a'' @ [0x5C] @ str ''u0041'' @ [0x5C] @ str ''n"'') =
     Some (JString [0x61, 0x41, 0x0A])\<close>
  by code_simp+

subsection \<open>The two functions\<close>

lemma JSON_parse_empty: "JSON_parse [] = None"
  by (simp add: JSON_parse_def)

lemma JSON_parse_undefined: "JSON_parse (str ''undefined'') = None"
  by code_simp

lemma analyze_on_response:
  assumes "generateContent (analysis_request input_text imageData) = Inr response"
  shows "analyzeThreatContent generateContent input_text imageData =
           Inr (case JSON_parse (ToString (resp_text response)) of
                  None \<Rightarrow> fallback
                | Some v \<Rightarrow> v)"
  using assms by (simp add: analyzeThreatContent_def split: option.splits)

text \<open>The request each function sends: a service that rejects every call with the
  request it was given hands that request back through the function.\<close>

lemma analyze_sends:
  "analyzeThreatContent Inl input_text imageData = Inl (analysis_request input_text imageData)"
  by (simp add: analyzeThreatContent_def)

lemma chat_sends:
  "getChatResponse Inl history mode_arg = Inl (Rejected (chat_request history mode_arg))"
  by (simp add: getChatResponse_def)

lemma riskLevel_fallback: "get_field fallback (str ''riskLevel'') = Some (JNumber 50)"
  by (simp add: fallback_def str_def CH_def)

lemma fallback_in_range: "riskLevel_in_range fallback"
  by (simp add: riskLevel_in_range_def riskLevel_fallback)











lemma map_throwing_web:
  "map_throwing to_source (filter (\<lambda>chunk. web chunk \<noteq> None) chunks) = Inr (web_references chunks)"
  by (induction chunks) (auto simp: to_source_def)

lemma web_references_filter_map:
  "web_references chunks =
     map (\<lambda>w. \<lparr>title = web_title w, uri = web_uri w\<rparr>) (List.map_filter web chunks)"
  by (induction chunks) (auto simp: List.map_filter_simps split: option.splits)

lemma extract_sources_total:
  "extract_sources response =
     Inr (case grounding_chunks response of
            None \<Rightarrow> None
          | Some chunks \<Rightarrow> Some (web_references chunks))"
  unfolding extract_sources_def map_throwing_web by (simp split: option.splits)

lemma chat_on_response:
  assumes "generateContent (chat_request history mode_arg) = Inr response"
  shows "getChatResponse generateContent history mode_arg =
           Inr \<lparr>reply_text = or_default (resp_text response) (str ''Communication link lost.''),
                sources = (case grounding_chunks response of
                             None \<Rightarrow> None
                           | Some chunks \<Rightarrow> Some (web_references chunks))\<rparr>"
  using assms by (simp add: getChatResponse_def extract_sources_total)


section \<open>The threat analyzer\<close>

text \<open>
  Claim C9. When the call to the model service itself fails, that is, the awaited
  promise is rejected with a fault \<open>e\<close>, \<open>analyzeThreatContent\<close> ends with the same fault:
  it neither catches it nor turns it into the fallback result.
\<close>

theorem service_fault_propagates:
  assumes "generateContent (analysis_request input_text imageData) = Inl e"
  shows "analyzeThreatContent generateContent input_text imageData = Inl e"
  using assms by (simp add: analyzeThreatContent_def)

theorem service_fault_propagates_witness:
  "replies (Inl ''ECONNRESET'') (analysis_request (str ''hello'') None) = Inl ''ECONNRESET'' \<and>
   analyzeThreatContent (replies (Inl ''ECONNRESET'')) (str ''hello'') None = Inl ''ECONNRESET''"
  using service_fault_propagates
    [where generateContent = "replies (Inl ''ECONNRESET'')" and input_text = "str ''hello''"
       and imageData = None and e = "''ECONNRESET''"]
  by (simp add: replies_def)

text \<open>
  Claim C5. When the service answers and the text of the answer is malformed JSON
  (\<^verbatim>\<open>JSON.parse\<close> throws), the result is exactly the fixed fallback object: status
  \<^verbatim>\<open>Suspicious\<close>, risk level 50, the reasoning, the two suggested actions and the
  single indicator of the \<^verbatim>\<open>catch\<close> branch.
\<close>

theorem malformed_json_returns_fallback:
  assumes "generateContent (analysis_request input_text imageData) = Inr response"
    and "JSON_parse (ToString (resp_text response)) = None"
  shows "analyzeThreatContent generateContent input_text imageData =
           Inr (JObject
             [(str ''status'', JString (str ''Suspicious'')),
              (str ''riskLevel'', JNumber 50),
              (str ''reasoning'',
                 JString (str ''Forensic parser anomaly. Manual verification required.'')),
              (str ''suggestedActions'',
                 JArray [JString (str ''Do not click links''),
                         JString (str ''Verify source identity'')]),
              (str ''detectedIndicators'', JArray [JString (str ''Parser Error'')])])"
  using assms by (simp add: analyzeThreatContent_def fallback_def)

theorem malformed_json_returns_fallback_witness:
  \<open>JSON_parse (ToString (resp_text \<lparr>resp_text = Some (str ''{"status": "Safe", "riskLevel": ''), candidates = None\<rparr>)) = None \<and>
   analyzeThreatContent
     (replies (Inr \<lparr>resp_text = Some (str ''{"status": "Safe", "riskLevel": ''), candidates = None\<rparr>)
        :: request \<Rightarrow> unit + response)
     (str ''hello'') None =
   Inr (JObject
     [(str ''status'', JString (str ''Suspicious'')),
      (str ''riskLevel'', JNumber 50),
      (str ''reasoning'',
         JString (str ''Forensic parser anomaly. Manual verification required.'')),
      (str ''suggestedActions'',
         JArray [JString (str ''Do not click links''),
                 JString (str ''Verify source identity'')]),
      (str ''detectedIndicators'', JArray [JString (str ''Parser Error'')])])\<close>
proof -
  let ?r = \<open>\<lparr>resp_text = Some (str ''{"status": "Safe", "riskLevel": ''), candidates = None\<rparr>\<close>
  have t: \<open>JSON_parse (str ''{"status": "Safe", "riskLevel": '') = None\<close>
    by code_simp
  have p: "JSON_parse (ToString (resp_text ?r)) = None"
    using t by (simp add: ToString_def)
  show ?thesis
    using p malformed_json_returns_fallback
      [where generateContent = "replies (Inr ?r) :: request \<Rightarrow> unit + response"
         and input_text = "str ''hello''" and imageData = None and response = ?r]
    by (simp add: replies_def)
qed

text \<open>
  Claim C2, as stated, says that a response that violates the declared schema is replaced
  by the fallback result as well. It is not: the text \<^verbatim>\<open>{}\<close> is well-formed JSON, it
  has none of the five required properties, and the empty object is what the function
  returns.
\<close>

theorem schema_violation_is_returned:
  \<open>\<not> conforms analysis_schema (JObject []) \<and>
   analyzeThreatContent
     (replies (Inr \<lparr>resp_text = Some (str ''{}''), candidates = None\<rparr>)
        :: request \<Rightarrow> unit + response)
     (str ''hello'') None = Inr (JObject []) \<and>
   JObject [] \<noteq> fallback\<close>
proof -
  have "JSON_parse (str ''{}'') = Some (JObject [])"
    by code_simp
  then show ?thesis
    by (simp add: analyzeThreatContent_def replies_def ToString_def analysis_schema_def
          fallback_def)
qed

text \<open>
  Claim C2, amended. When the service answers and the text of the answer is not
  well-formed JSON, which includes the empty text and the missing text, the function
  raises nothing and returns the fallback result. When the text is well-formed JSON, the
  function returns the parsed value as it is; nothing validates it against the schema.
\<close>

theorem unparsable_text_returns_fallback:
  assumes "generateContent (analysis_request input_text imageData) = Inr response"
  shows "(JSON_parse (ToString (resp_text response)) = None \<longrightarrow>
            analyzeThreatContent generateContent input_text imageData = Inr fallback) \<and>
         (resp_text response = None \<or> resp_text response = Some [] \<longrightarrow>
            analyzeThreatContent generateContent input_text imageData = Inr fallback) \<and>
         (\<forall>v. JSON_parse (ToString (resp_text response)) = Some v \<longrightarrow>
            analyzeThreatContent generateContent input_text imageData = Inr v)"
proof -
  have "JSON_parse (ToString (resp_text response)) = None"
    if "resp_text response = None \<or> resp_text response = Some []"
    using that by (auto simp: ToString_def JSON_parse_empty JSON_parse_undefined)
  then show ?thesis
    using assms by (auto simp: analyzeThreatContent_def)
qed

theorem unparsable_text_returns_fallback_witness:
  \<open>analyzeThreatContent
     (replies (Inr \<lparr>resp_text = Some (str ''{"status": "Safe", ''), candidates = None\<rparr>)
        :: request \<Rightarrow> unit + response)
     (str ''hello'') None = Inr fallback \<and>
   analyzeThreatContent
     (replies (Inr \<lparr>resp_text = Some [], candidates = None\<rparr>) :: request \<Rightarrow> unit + response)
     (str ''hello'') None = Inr fallback \<and>
   analyzeThreatContent
     (replies (Inr \<lparr>resp_text = None, candidates = None\<rparr>) :: request \<Rightarrow> unit + response)
     (str ''hello'') None = Inr fallback \<and>
   analyzeThreatContent
     (replies (Inr \<lparr>resp_text = Some (str ''[true]''), candidates = None\<rparr>)
        :: request \<Rightarrow> unit + response)
     (str ''hello'') None = Inr (JArray [JBool True])\<close>
proof -
  have a: \<open>JSON_parse (str ''{"status": "Safe", '') = None\<close>
    by code_simp
  have b: \<open>JSON_parse (str ''[true]'') = Some (JArray [JBool True])\<close>
    by code_simp
  show ?thesis
    using a b
      unparsable_text_returns_fallback
        [where generateContent =
            "replies (Inr \<lparr>resp_text = Some (str ''{\"status\": \"Safe\", ''), candidates = None\<rparr>)
               :: request \<Rightarrow> unit + response"
           and input_text = "str ''hello''" and imageData = None
           and response = "\<lparr>resp_text = Some (str ''{\"status\": \"Safe\", ''), candidates = None\<rparr>"]
      unparsable_text_returns_fallback
        [where generateContent =
            "replies (Inr \<lparr>resp_text = Some [], candidates = None\<rparr>) :: request \<Rightarrow> unit + response"
           and input_text = "str ''hello''" and imageData = None
           and response = "\<lparr>resp_text = Some [], candidates = None\<rparr>"]
      unparsable_text_returns_fallback
        [where generateContent =
            "replies (Inr \<lparr>resp_text = None, candidates = None\<rparr>) :: request \<Rightarrow> unit + response"
           and input_text = "str ''hello''" and imageData = None
           and response = "\<lparr>resp_text = None, candidates = None\<rparr>"]
      unparsable_text_returns_fallback
        [where generateContent =
            "replies (Inr \<lparr>resp_text = Some (str ''[true]''), candidates = None\<rparr>)
               :: request \<Rightarrow> unit + response"
           and input_text = "str ''hello''" and imageData = None
           and response = "\<lparr>resp_text = Some (str ''[true]''), candidates = None\<rparr>"]
    by (simp add: replies_def ToString_def)
qed

text \<open>
  Claim C3, as stated, says that the \<^verbatim>\<open>riskLevel\<close> of the result is an integer between 0
  and 100 for every model response. A response that satisfies the declared schema and
  carries the risk level 150 is returned unchanged.
\<close>

theorem riskLevel_150_is_returned:
  \<open>conforms analysis_schema
     (JObject
        [(str ''status'', JString (str ''Dangerous'')),
         (str ''riskLevel'', JNumber 150),
         (str ''reasoning'', JString (str ''phishing'')),
         (str ''suggestedActions'', JArray []),
         (str ''detectedIndicators'', JArray [])]) \<and>
   analyzeThreatContent
     (replies (Inr \<lparr>resp_text = Some (str ''{"status":"Dangerous","riskLevel":150,"reasoning":"phishing","suggestedActions":[],"detectedIndicators":[]}''), candidates = None\<rparr>)
        :: request \<Rightarrow> unit + response)
     (str ''hello'') None =
   Inr (JObject
        [(str ''status'', JString (str ''Dangerous'')),
         (str ''riskLevel'', JNumber 150),
         (str ''reasoning'', JString (str ''phishing'')),
         (str ''suggestedActions'', JArray []),
         (str ''detectedIndicators'', JArray [])]) \<and>
   \<not> riskLevel_in_range
     (JObject
        [(str ''status'', JString (str ''Dangerous'')),
         (str ''riskLevel'', JNumber 150),
         (str ''reasoning'', JString (str ''phishing'')),
         (str ''suggestedActions'', JArray []),
         (str ''detectedIndicators'', JArray [])])\<close>
proof -
  have p: \<open>JSON_parse (str ''{"status":"Dangerous","riskLevel":150,"reasoning":"phishing","suggestedActions":[],"detectedIndicators":[]}'') =
     Some (JObject
        [(str ''status'', JString (str ''Dangerous'')),
         (str ''riskLevel'', JNumber 150),
         (str ''reasoning'', JString (str ''phishing'')),
         (str ''suggestedActions'', JArray []),
         (str ''detectedIndicators'', JArray [])])\<close>
    by code_simp
  have c: \<open>conforms analysis_schema
     (JObject
        [(str ''status'', JString (str ''Dangerous'')),
         (str ''riskLevel'', JNumber 150),
         (str ''reasoning'', JString (str ''phishing'')),
         (str ''suggestedActions'', JArray []),
         (str ''detectedIndicators'', JArray [])])\<close>
    by (simp add: analysis_schema_def str_def CH_def)
  have r: \<open>\<not> riskLevel_in_range
     (JObject
        [(str ''status'', JString (str ''Dangerous'')),
         (str ''riskLevel'', JNumber 150),
         (str ''reasoning'', JString (str ''phishing'')),
         (str ''suggestedActions'', JArray []),
         (str ''detectedIndicators'', JArray [])])\<close>
    by (simp add: riskLevel_in_range_def str_def CH_def)
  have a: \<open>analyzeThreatContent
     (replies (Inr \<lparr>resp_text = Some (str ''{"status":"Dangerous","riskLevel":150,"reasoning":"phishing","suggestedActions":[],"detectedIndicators":[]}''), candidates = None\<rparr>)
        :: request \<Rightarrow> unit + response)
     (str ''hello'') None =
   Inr (JObject
        [(str ''status'', JString (str ''Dangerous'')),
         (str ''riskLevel'', JNumber 150),
         (str ''reasoning'', JString (str ''phishing'')),
         (str ''suggestedActions'', JArray []),
         (str ''detectedIndicators'', JArray [])])\<close>
    using p by (simp add: analyzeThreatContent_def replies_def ToString_def)
  from c a r show ?thesis by (intro conjI)
qed

text \<open>
  Claim C3, amended. For every text input and every model response the function returns
  the fallback result, whose \<^verbatim>\<open>riskLevel\<close> is 50, when the response text is not
  well-formed JSON, and otherwise the parsed value itself, unchanged. So the
  \<^verbatim>\<open>riskLevel\<close> of the result is an integer between 0 and 100 exactly when the response
  text is not well-formed JSON or the parsed value has such a \<^verbatim>\<open>riskLevel\<close>; the function
  neither checks nor clamps it.
\<close>

theorem riskLevel_is_unchecked:
  assumes "generateContent (analysis_request input_text imageData) = Inr response"
  shows "analyzeThreatContent generateContent input_text imageData =
           Inr (case JSON_parse (ToString (resp_text response)) of
                  None \<Rightarrow> fallback
                | Some w \<Rightarrow> w) \<and>
         (\<exists>v. analyzeThreatContent generateContent input_text imageData = Inr v \<and>
            (JSON_parse (ToString (resp_text response)) = None \<longrightarrow>
               get_field v (str ''riskLevel'') = Some (JNumber 50)) \<and>
            (riskLevel_in_range v \<longleftrightarrow>
               (case JSON_parse (ToString (resp_text response)) of
                  None \<Rightarrow> True
                | Some w \<Rightarrow> riskLevel_in_range w)))"
proof (cases "JSON_parse (ToString (resp_text response))")
  case None
  with assms have "analyzeThreatContent generateContent input_text imageData = Inr fallback"
    by (simp add: analyzeThreatContent_def)
  with None show ?thesis
    by (simp add: riskLevel_fallback fallback_in_range)
next
  case (Some w)
  with assms have "analyzeThreatContent generateContent input_text imageData = Inr w"
    by (simp add: analyzeThreatContent_def)
  with Some show ?thesis
    by simp
qed

theorem riskLevel_is_unchecked_witness:
  \<open>analyzeThreatContent
     (replies (Inr \<lparr>resp_text = Some (str ''{"riskLevel": ''), candidates = None\<rparr>)
        :: request \<Rightarrow> unit + response)
     (str ''hello'') None = Inr fallback \<and>
   get_field fallback (str ''riskLevel'') = Some (JNumber 50) \<and>
   riskLevel_in_range fallback \<and>
   analyzeThreatContent
     (replies (Inr \<lparr>resp_text = Some (str ''{"status":"Safe","riskLevel":12,"reasoning":"benign","suggestedActions":[],"detectedIndicators":[]}''), candidates = None\<rparr>)
        :: request \<Rightarrow> unit + response)
     (str ''hello'') None =
   Inr (JObject
        [(str ''status'', JString (str ''Safe'')),
         (str ''riskLevel'', JNumber 12),
         (str ''reasoning'', JString (str ''benign'')),
         (str ''suggestedActions'', JArray []),
         (str ''detectedIndicators'', JArray [])]) \<and>
   riskLevel_in_range
     (JObject
        [(str ''status'', JString (str ''Safe'')),
         (str ''riskLevel'', JNumber 12),
         (str ''reasoning'', JString (str ''benign'')),
         (str ''suggestedActions'', JArray []),
         (str ''detectedIndicators'', JArray [])])\<close>
proof -
  let ?bad = \<open>\<lparr>resp_text = Some (str ''{"riskLevel": ''), candidates = None\<rparr>\<close>
  let ?good = \<open>\<lparr>resp_text = Some (str ''{"status":"Safe","riskLevel":12,"reasoning":"benign","suggestedActions":[],"detectedIndicators":[]}''), candidates = None\<rparr>\<close>
  let ?v = "JObject
        [(str ''status'', JString (str ''Safe'')),
         (str ''riskLevel'', JNumber 12),
         (str ''reasoning'', JString (str ''benign'')),
         (str ''suggestedActions'', JArray []),
         (str ''detectedIndicators'', JArray [])]"
  have a: \<open>JSON_parse (str ''{"riskLevel": '') = None\<close>
    by code_simp
  have b: \<open>JSON_parse (str ''{"status":"Safe","riskLevel":12,"reasoning":"benign","suggestedActions":[],"detectedIndicators":[]}'') = Some ?v\<close>
    by code_simp
  have r: "riskLevel_in_range ?v"
    by (simp add: riskLevel_in_range_def str_def CH_def)
  have first: "analyzeThreatContent (replies (Inr ?bad) :: request \<Rightarrow> unit + response)
      (str ''hello'') None = Inr fallback"
    using a
      riskLevel_is_unchecked
        [where generateContent = "replies (Inr ?bad) :: request \<Rightarrow> unit + response"
           and input_text = "str ''hello''" and imageData = None and response = ?bad]
    by (simp add: replies_def ToString_def)
  have second: "analyzeThreatContent (replies (Inr ?good) :: request \<Rightarrow> unit + response)
      (str ''hello'') None = Inr ?v"
    using b
      riskLevel_is_unchecked
        [where generateContent = "replies (Inr ?good) :: request \<Rightarrow> unit + response"
           and input_text = "str ''hello''" and imageData = None and response = ?good]
    by (simp add: replies_def ToString_def)
  from first second r riskLevel_fallback fallback_in_range show ?thesis
    by (intro conjI)
qed






section \<open>The chat responder\<close>




text \<open>
  Claim C8. When the service answers, the function returns a reply and no error. Its
  text is the placeholder \<^verbatim>\<open>Communication link lost.\<close> when the text of the response is
  missing or empty, and the text of the response unchanged otherwise.
\<close>

theorem empty_text_becomes_placeholder:
  assumes "generateContent (chat_request history mode_arg) = Inr response"
  shows "\<exists>srcs. getChatResponse generateContent history mode_arg =
           Inr \<lparr>reply_text =
                  (case resp_text response of
                     None \<Rightarrow> str ''Communication link lost.''
                   | Some t \<Rightarrow> if t = [] then str ''Communication link lost.'' else t),
                sources = srcs\<rparr>"
  using assms chat_on_response [of generateContent history mode_arg response]
  by (simp add: or_default_def truthy_def split: option.splits)

theorem empty_text_becomes_placeholder_witness:
  "(\<exists>srcs. getChatResponse
             (replies (Inr \<lparr>resp_text = Some [], candidates = None\<rparr>) :: request \<Rightarrow> unit + response)
             [\<lparr>msg_role = User, msg_text = str ''hi''\<rparr>] None =
           Inr \<lparr>reply_text = str ''Communication link lost.'', sources = srcs\<rparr>) \<and>
   (\<exists>srcs. getChatResponse
             (replies (Inr \<lparr>resp_text = None, candidates = None\<rparr>) :: request \<Rightarrow> unit + response)
             [\<lparr>msg_role = User, msg_text = str ''hi''\<rparr>] None =
           Inr \<lparr>reply_text = str ''Communication link lost.'', sources = srcs\<rparr>) \<and>
   (\<exists>srcs. getChatResponse
             (replies (Inr \<lparr>resp_text = Some (str ''Hello''), candidates = None\<rparr>)
                :: request \<Rightarrow> unit + response)
             [\<lparr>msg_role = User, msg_text = str ''hi''\<rparr>] None =
           Inr \<lparr>reply_text = str ''Hello'', sources = srcs\<rparr>)"
proof -
  have ne: "str ''Hello'' \<noteq> []" by (simp add: str_def)
  show ?thesis
    using ne
      empty_text_becomes_placeholder
        [where generateContent =
            "replies (Inr \<lparr>resp_text = Some [], candidates = None\<rparr>) :: request \<Rightarrow> unit + response"
           and history = "[\<lparr>msg_role = User, msg_text = str ''hi''\<rparr>]" and mode_arg = None
           and response = "\<lparr>resp_text = Some [], candidates = None\<rparr>"]
      empty_text_becomes_placeholder
        [where generateContent =
            "replies (Inr \<lparr>resp_text = None, candidates = None\<rparr>) :: request \<Rightarrow> unit + response"
           and history = "[\<lparr>msg_role = User, msg_text = str ''hi''\<rparr>]" and mode_arg = None
           and response = "\<lparr>resp_text = None, candidates = None\<rparr>"]
      empty_text_becomes_placeholder
        [where generateContent =
            "replies (Inr \<lparr>resp_text = Some (str ''Hello''), candidates = None\<rparr>)
               :: request \<Rightarrow> unit + response"
           and history = "[\<lparr>msg_role = User, msg_text = str ''hi''\<rparr>]" and mode_arg = None
           and response = "\<lparr>resp_text = Some (str ''Hello''), candidates = None\<rparr>"]
    by (simp add: replies_def)
qed

text \<open>
  Claim C1, as stated, says that \<^verbatim>\<open>sources\<close> is absent whenever no grounding chunk
  refers to a web source, also when chunks exist. For a response whose only chunk has
  no web reference, \<^verbatim>\<open>filter\<close> gives the empty array and so does \<^verbatim>\<open>map\<close>: the reply
  carries an empty list of sources, not an absent one.
\<close>

theorem sources_empty_list_not_absent:
  "getChatResponse
     (replies
        (Inr \<lparr>resp_text = Some (str ''ok''),
              candidates =
                Some [\<lparr>groundingMetadata = Some \<lparr>groundingChunks = Some [\<lparr>web = None\<rparr>]\<rparr>\<rparr>]\<rparr>)
        :: request \<Rightarrow> unit + response)
     [\<lparr>msg_role = User, msg_text = str ''hi''\<rparr>] (Some Search) =
   Inr \<lparr>reply_text = str ''ok'', sources = Some []\<rparr> \<and>
   sources \<lparr>reply_text = str ''ok'', sources = Some []\<rparr> \<noteq> None"
  by (simp add: getChatResponse_def replies_def extract_sources_def grounding_chunks_def
        index_def or_default_def truthy_def str_def)

text \<open>
  Claim C1, amended. When the service answers, \<^verbatim>\<open>sources\<close> is absent exactly when the
  first candidate of the response has no list of grounding chunks (no candidates, no
  first candidate, no grounding metadata or no chunk list in it). Otherwise it is the
  list of \<^verbatim>\<open>{title, uri}\<close> of exactly the chunks with a web reference, in their order;
  that list is empty when no chunk has one.
\<close>

theorem sources_follow_grounding_chunks:
  assumes "generateContent (chat_request history mode_arg) = Inr response"
  shows "\<exists>reply. getChatResponse generateContent history mode_arg = Inr reply \<and>
           sources reply =
             (case grounding_chunks response of
                None \<Rightarrow> None
              | Some chunks \<Rightarrow> Some (web_references chunks)) \<and>
           (sources reply = None \<longleftrightarrow> grounding_chunks response = None)"
  using assms chat_on_response [of generateContent history mode_arg response]
  by (simp split: option.splits)

theorem sources_follow_grounding_chunks_witness:
  "\<exists>reply.
     getChatResponse
       (replies
          (Inr \<lparr>resp_text = Some (str ''ok''),
                candidates =
                  Some [\<lparr>groundingMetadata =
                           Some \<lparr>groundingChunks =
                                   Some [\<lparr>web = Some \<lparr>web_title = Some (str ''A''),
                                                       web_uri = Some (str ''https://a.example'')\<rparr>\<rparr>,
                                         \<lparr>web = None\<rparr>,
                                         \<lparr>web = Some \<lparr>web_title = None,
                                                       web_uri = Some (str ''https://b.example'')\<rparr>\<rparr>]\<rparr>\<rparr>]\<rparr>)
          :: request \<Rightarrow> unit + response)
       [\<lparr>msg_role = User, msg_text = str ''hi''\<rparr>] (Some Search) = Inr reply \<and>
     sources reply =
       Some [\<lparr>title = Some (str ''A''), uri = Some (str ''https://a.example'')\<rparr>,
             \<lparr>title = None, uri = Some (str ''https://b.example'')\<rparr>]"
  using sources_follow_grounding_chunks
    [where generateContent =
        "replies
          (Inr \<lparr>resp_text = Some (str ''ok''),
                candidates =
                  Some [\<lparr>groundingMetadata =
                           Some \<lparr>groundingChunks =
                                   Some [\<lparr>web = Some \<lparr>web_title = Some (str ''A''),
                                                       web_uri = Some (str ''https://a.example'')\<rparr>\<rparr>,
                                         \<lparr>web = None\<rparr>,
                                         \<lparr>web = Some \<lparr>web_title = None,
                                                       web_uri = Some (str ''https://b.example'')\<rparr>\<rparr>]\<rparr>\<rparr>]\<rparr>)
          :: request \<Rightarrow> unit + response"
       and history = "[\<lparr>msg_role = User, msg_text = str ''hi''\<rparr>]" and mode_arg = "Some Search"
       and response =
         "\<lparr>resp_text = Some (str ''ok''),
                candidates =
                  Some [\<lparr>groundingMetadata =
                           Some \<lparr>groundingChunks =
                                   Some [\<lparr>web = Some \<lparr>web_title = Some (str ''A''),
                                                       web_uri = Some (str ''https://a.example'')\<rparr>\<rparr>,
                                         \<lparr>web = None\<rparr>,
                                         \<lparr>web = Some \<lparr>web_title = None,
                                                       web_uri = Some (str ''https://b.example'')\<rparr>\<rparr>]\<rparr>\<rparr>]\<rparr>"]
  by (auto simp add: replies_def grounding_chunks_def index_def)

end
